theory Spec2Isabelle
  imports Complex_Main "HOL-Library.Word"
begin

section \<open>JavaScript strings\<close>

text \<open>
  A JavaScript string is a sequence of 16-bit code units; \<open>length\<close>, \<open>trim\<close>,
  \<open>startsWith\<close> and the regular expressions of \<^verbatim>\<open>youtube.ts\<close> (none has the \<open>u\<close> flag)
  all work on code units.  The literals of the source are ASCII and are written
  \<open>js ''...''\<close>.
\<close>

type_synonym code_unit = "16 word"
type_synonym jsstring = "code_unit list"

definition js :: "string \<Rightarrow> jsstring" where
  "js s = map of_char s"

text \<open>ECMAScript \<open>LineTerminator\<close>: LF, CR, LS, PS.\<close>

definition line_terminator :: "code_unit \<Rightarrow> bool" where
  "line_terminator c = (c = 0x000A \<or> c = 0x000D \<or> c = 0x2028 \<or> c = 0x2029)"

text \<open>
  ECMAScript \<open>WhiteSpace\<close>: TAB, VT, FF, ZWNBSP and the Unicode category Zs
  (SPACE, NBSP, U+1680, U+2000 to U+200A, U+202F, U+205F, U+3000).
\<close>

definition white_space :: "code_unit \<Rightarrow> bool" where
  "white_space c = (c = 0x0009 \<or> c = 0x000B \<or> c = 0x000C \<or> c = 0xFEFF \<or> c = 0x0020
     \<or> c = 0x00A0 \<or> c = 0x1680 \<or> (0x2000 \<le> c \<and> c \<le> 0x200A) \<or> c = 0x202F
     \<or> c = 0x205F \<or> c = 0x3000)"

text \<open>\<open>String.prototype.trim\<close> strips white space and line terminators from both ends.\<close>

definition trimmable :: "code_unit \<Rightarrow> bool" where
  "trimmable c = (white_space c \<or> line_terminator c)"

definition trim :: "jsstring \<Rightarrow> jsstring" where
  "trim s = rev (dropWhile trimmable (rev (dropWhile trimmable s)))"

definition startsWith :: "jsstring \<Rightarrow> jsstring \<Rightarrow> bool" where
  "startsWith s p = (take (length p) s = p)"

text \<open>
  \<open>Array.prototype.join\<close> as ECMAScript gives it: \<open>R\<close> starts empty; for each index \<open>k\<close>
  in order, the separator is appended when \<open>k > 0\<close>, then the element.
\<close>

definition join :: "jsstring \<Rightarrow> jsstring list \<Rightarrow> jsstring" where
  "join sep xs =
     fold (\<lambda>(k, x) R. (if 0 < k then R @ sep else R) @ x) (enumerate 0 xs) []"

text \<open>
  The spec's words for it: the texts concatenated, one separator between each two
  neighbours.
\<close>

fun separated :: "jsstring \<Rightarrow> jsstring list \<Rightarrow> jsstring" where
  "separated sep [] = []"
| "separated sep [x] = x"
| "separated sep (x # y # ys) = x @ sep @ separated sep (y # ys)"


section \<open>The regular expressions\<close>

text \<open>
  The regular expressions of the source are built from five constructs: a literal, a
  character class repeated a fixed number of times, a greedy \<open>*\<close> or \<open>+\<close> over a
  character class, and the search for the leftmost position where the expression matches
  (\<open>String.prototype.match\<close> without the \<open>g\<close> flag).  Each construct is a matcher in
  continuation-passing style: it consumes a prefix of the input and hands what remains to
  the continuation \<open>k\<close>, which stands for the rest of the expression; when \<open>k\<close> fails the
  matcher backtracks to its next alternative, in the priority order of a backtracking
  engine.  The result is what the expression's capture group holds.
\<close>

fun re_lit :: "jsstring \<Rightarrow> (jsstring \<Rightarrow> 'a option) \<Rightarrow> jsstring \<Rightarrow> 'a option" where
  "re_lit [] k s = k s"
| "re_lit (c # cs) k [] = None"
| "re_lit (c # cs) k (d # ds) = (if c = d then re_lit cs k ds else None)"

text \<open>\<open>[...]{n}\<close>: exactly \<open>n\<close> code units of the class; \<open>k\<close> gets them and the rest.\<close>

definition re_class_n ::
  "nat \<Rightarrow> (code_unit \<Rightarrow> bool) \<Rightarrow> (jsstring \<Rightarrow> jsstring \<Rightarrow> 'a option) \<Rightarrow> jsstring \<Rightarrow> 'a option" where
  "re_class_n n p k s =
     (if n \<le> length s \<and> list_all p (take n s) then k (take n s) (drop n s) else None)"

text \<open>
  A greedy repetition of a class: one more code unit is tried first, and only when
  everything after that fails does the repetition stop where it is.  \<open>acc\<close> holds what
  the repetition has consumed so far.
\<close>

fun re_greedy ::
  "(code_unit \<Rightarrow> bool) \<Rightarrow> (jsstring \<Rightarrow> jsstring \<Rightarrow> 'a option) \<Rightarrow> jsstring \<Rightarrow> jsstring \<Rightarrow> 'a option" where
  "re_greedy p k acc [] = k acc []"
| "re_greedy p k acc (c # cs) =
     (if p c then
        (case re_greedy p k (acc @ [c]) cs of
           Some r \<Rightarrow> Some r
         | None \<Rightarrow> k acc (c # cs))
      else k acc (c # cs))"

definition re_star ::
  "(code_unit \<Rightarrow> bool) \<Rightarrow> (jsstring \<Rightarrow> jsstring \<Rightarrow> 'a option) \<Rightarrow> jsstring \<Rightarrow> 'a option" where
  "re_star p k s = re_greedy p k [] s"

definition re_plus ::
  "(code_unit \<Rightarrow> bool) \<Rightarrow> (jsstring \<Rightarrow> jsstring \<Rightarrow> 'a option) \<Rightarrow> jsstring \<Rightarrow> 'a option" where
  "re_plus p k s =
     (case s of
        [] \<Rightarrow> None
      | c # cs \<Rightarrow> if p c then re_greedy p k [c] cs else None)"

text \<open>
  An expression with no \<open>^\<close> is tried at every start position from the left, the end of
  the input included; the first position where it matches wins.
\<close>

fun re_search :: "(jsstring \<Rightarrow> 'a option) \<Rightarrow> jsstring \<Rightarrow> 'a option" where
  "re_search m [] = m []"
| "re_search m (c # cs) =
     (case m (c # cs) of
        Some r \<Rightarrow> Some r
      | None \<Rightarrow> re_search m cs)"

text \<open>The character classes: \<open>.\<close> (no \<open>s\<close> flag), \<open>[a-zA-Z0-9_-]\<close> and \<open>[a-zA-Z0-9_.-]\<close>.\<close>

definition in_range :: "char \<Rightarrow> char \<Rightarrow> code_unit \<Rightarrow> bool" where
  "in_range lo hi c = (of_char lo \<le> c \<and> c \<le> of_char hi)"

definition dot :: "code_unit \<Rightarrow> bool" where
  "dot c = (\<not> line_terminator c)"

definition id_char :: "code_unit \<Rightarrow> bool" where
  "id_char c = (in_range CHR ''a'' CHR ''z'' c \<or> in_range CHR ''A'' CHR ''Z'' c
     \<or> in_range CHR ''0'' CHR ''9'' c \<or> c = of_char CHR ''_'' \<or> c = of_char CHR ''-'')"

definition handle_char :: "code_unit \<Rightarrow> bool" where
  "handle_char c = (in_range CHR ''a'' CHR ''z'' c \<or> in_range CHR ''A'' CHR ''Z'' c
     \<or> in_range CHR ''0'' CHR ''9'' c \<or> c = of_char CHR ''_'' \<or> c = of_char CHR ''.''
     \<or> c = of_char CHR ''-'')"


section \<open>The identifier parser\<close>

text \<open>
  \<^verbatim>\<open>VIDEO_ID_PATTERNS\<close>, each as the function from the input to group 1 of its first
  match (\<open>trimmed.match(pattern)\<close>, then \<open>match[1]\<close>); \<open>None\<close> is the \<open>null\<close> of no match.
  Every pattern ends with its capture group \<open>([a-zA-Z0-9_-]{11})\<close>.
\<close>

definition group11 :: "jsstring \<Rightarrow> jsstring option" where
  "group11 = re_class_n 11 id_char (\<lambda>g rest. Some g)"

definition watch_pattern :: "jsstring \<Rightarrow> jsstring option" where
  "watch_pattern =
     re_search (re_lit (js ''youtube.com/watch?'') (re_star dot (\<lambda>skipped. re_lit (js ''v='') group11)))"

definition path_pattern :: "string \<Rightarrow> jsstring \<Rightarrow> jsstring option" where
  "path_pattern marker = re_search (re_lit (js marker) group11)"

definition VIDEO_ID_PATTERNS :: "(jsstring \<Rightarrow> jsstring option) list" where
  "VIDEO_ID_PATTERNS =
     [watch_pattern,
      path_pattern ''youtu.be/'',
      path_pattern ''youtube.com/embed/'',
      path_pattern ''youtube.com/shorts/'',
      path_pattern ''youtube.com/live/'',
      path_pattern ''youtube.com/v/'']"

text \<open>\<open>/^[a-zA-Z0-9_-]{11}$/.test(trimmed)\<close>; without the \<open>m\<close> flag \<open>$\<close> is the end of the input.\<close>

definition raw_id_test :: "jsstring \<Rightarrow> bool" where
  "raw_id_test s =
     (re_class_n 11 id_char (\<lambda>g rest. if rest = [] then Some g else None) s \<noteq> None)"

text \<open>The \<open>for\<close> loop of \<open>extractVideoId\<close>: the first pattern that matches returns.\<close>

fun first_match :: "(jsstring \<Rightarrow> jsstring option) list \<Rightarrow> jsstring \<Rightarrow> jsstring option" where
  "first_match [] trimmed = None"
| "first_match (pattern # patterns) trimmed =
     (case pattern trimmed of
        Some g \<Rightarrow> Some g
      | None \<Rightarrow> first_match patterns trimmed)"

definition extractVideoId :: "jsstring \<Rightarrow> jsstring option" where
  "extractVideoId input =
     (let trimmed = trim input in
      if raw_id_test trimmed then Some trimmed
      else first_match VIDEO_ID_PATTERNS trimmed)"

text \<open>
  The result of \<open>extractChannelIdentifier\<close>: \<open>{ type: "id" | "handle" | "username"; value }\<close>.
\<close>

datatype identifier_type = Type_id | Type_handle | Type_username

record channel_identifier =
  ident_type :: identifier_type
  ident_value :: jsstring

text \<open>
  \<open>/youtube\.com\/channel\/([a-zA-Z0-9_-]+)/\<close> and \<open>/youtube\.com\/@([a-zA-Z0-9_.-]+)/\<close>,
  each as the function from the input to group 1 of its first match.
\<close>

definition channel_url_pattern :: "jsstring \<Rightarrow> jsstring option" where
  "channel_url_pattern =
     re_search (re_lit (js ''youtube.com/channel/'') (re_plus id_char (\<lambda>g rest. Some g)))"

definition handle_url_pattern :: "jsstring \<Rightarrow> jsstring option" where
  "handle_url_pattern =
     re_search (re_lit (js ''youtube.com/@'') (re_plus handle_char (\<lambda>g rest. Some g)))"

definition extractChannelIdentifier :: "jsstring \<Rightarrow> channel_identifier option" where
  "extractChannelIdentifier input =
     (let trimmed = trim input in
      case channel_url_pattern trimmed of
        Some idMatch \<Rightarrow> Some \<lparr>ident_type = Type_id, ident_value = idMatch\<rparr>
      | None \<Rightarrow>
          (case handle_url_pattern trimmed of
             Some handleMatch \<Rightarrow>
               Some \<lparr>ident_type = Type_handle, ident_value = js ''@'' @ handleMatch\<rparr>
           | None \<Rightarrow>
               if startsWith trimmed (js ''@'')
               then Some \<lparr>ident_type = Type_handle, ident_value = trimmed\<rparr>
               else if startsWith trimmed (js ''UC'') \<and> length trimmed = 24
               then Some \<lparr>ident_type = Type_id, ident_value = trimmed\<rparr>
               else Some \<lparr>ident_type = Type_handle, ident_value = trimmed\<rparr>))"


section \<open>The API client\<close>

text \<open>
  A request is the endpoint under \<^verbatim>\<open>YOUTUBE_API_BASE\<close> and the URL's search parameters in
  order.  A parameter's value is a string, or \<open>String(n)\<close> of a number \<open>n\<close>, kept as the
  number.  \<open>URLSearchParams.set\<close> replaces the value of a name that is there and appends a
  name that is not.
\<close>

datatype qvalue = Str jsstring | String_of real

record request =
  endpoint :: string
  query :: "(string \<times> qvalue) list"

fun set_param :: "string \<Rightarrow> qvalue \<Rightarrow> (string \<times> qvalue) list \<Rightarrow> (string \<times> qvalue) list" where
  "set_param k v [] = [(k, v)]"
| "set_param k v ((k', v') # ps) =
     (if k' = k then (k, v) # filter (\<lambda>(n, w). n \<noteq> k) ps else (k', v') # set_param k v ps)"

text \<open>
  What the upstream does with a request: \<open>fetch\<close> rejects; or the response is not
  \<open>ok\<close> and has a status and a body text; or it is \<open>ok\<close> and \<open>res.json()\<close> rejects; or it
  is \<open>ok\<close> and the body parses to \<open>'d\<close>.  (Reading the text of a response that is not
  \<open>ok\<close> is taken to succeed.)
\<close>

datatype 'd http_outcome =
    Network_failure jsstring
  | Not_ok nat jsstring
  | Ok_malformed jsstring
  | Ok_json 'd

text \<open>
  The errors thrown: \<open>YouTube API error (status): body\<close>, \<open>Video not found or is
  private.\<close>, \<open>Channel not found.\<close>, and whatever \<open>fetch\<close>, \<open>res.json()\<close> or the captions
  library rejected with.
\<close>

datatype error =
    Thrown jsstring
  | YouTube_API_error nat jsstring
  | Video_not_found
  | Channel_not_found

text \<open>
  Every function that calls the upstream takes the list of requests sent so far and
  returns it with its own request appended, so that what was sent, and whether anything
  was, can be read off the result.
\<close>

definition youtubeApiFetch ::
  "(request \<Rightarrow> 'd http_outcome) \<Rightarrow> string \<Rightarrow> (string \<times> qvalue) list \<Rightarrow> jsstring
     \<Rightarrow> request list \<Rightarrow> (error + 'd) \<times> request list" where
  "youtubeApiFetch http endpoint' params apiKey sent =
     (let url = \<lparr>endpoint = endpoint',
                 query = fold (\<lambda>(k, v). set_param k v) params [(''key'', Str apiKey)]\<rparr>;
          sent' = sent @ [url]
      in case http url of
           Network_failure m \<Rightarrow> (Inl (Thrown m), sent')
         | Not_ok status body \<Rightarrow> (Inl (YouTube_API_error status body), sent')
         | Ok_malformed m \<Rightarrow> (Inl (Thrown m), sent')
         | Ok_json data \<Rightarrow> (Inr data, sent'))"

section \<open>The upstream responses and the result records\<close>

text \<open>
  The upstream's JSON is typed \<open>any\<close> in the source.  Here it has the shape of the
  upstream API's contract: a field the source reads through \<open>??\<close> or \<open>?.\<close> is optional
  (\<open>None\<close> is an absent or \<open>null\<close> field), every other field it reads is present.  A
  response body is \<open>data\<close>, with its optional \<open>items\<close> array.
\<close>

record 'i listing =
  items :: "'i list option"

record thumbnail =
  url :: "jsstring option"

record thumbnails =
  high :: "thumbnail option"

text \<open>\<open>v ?? d\<close>, and \<open>thumbnails?.high?.url\<close>.\<close>

definition nullish :: "'a option \<Rightarrow> 'a \<Rightarrow> 'a" where
  "nullish v d = (case v of None \<Rightarrow> d | Some x \<Rightarrow> x)"

definition high_url :: "thumbnails option \<Rightarrow> jsstring option" where
  "high_url t =
     (case t of
        None \<Rightarrow> None
      | Some ts \<Rightarrow> (case high ts of None \<Rightarrow> None | Some h \<Rightarrow> url h))"

record video_snippet =
  vs_title :: jsstring
  vs_description :: jsstring
  vs_channelTitle :: jsstring
  vs_channelId :: jsstring
  vs_publishedAt :: jsstring
  vs_tags :: "jsstring list option"
  vs_thumbnails :: "thumbnails option"
  vs_categoryId :: jsstring

record video_statistics =
  vst_viewCount :: "jsstring option"
  vst_likeCount :: "jsstring option"
  vst_commentCount :: "jsstring option"

record video_contentDetails =
  vc_duration :: jsstring

record video_item =
  vi_snippet :: video_snippet
  vi_statistics :: video_statistics
  vi_contentDetails :: video_contentDetails

record VideoDetails =
  vd_title :: jsstring
  vd_description :: jsstring
  vd_channelTitle :: jsstring
  vd_channelId :: jsstring
  vd_publishedAt :: jsstring
  vd_viewCount :: jsstring
  vd_likeCount :: jsstring
  vd_commentCount :: jsstring
  vd_duration :: jsstring
  vd_tags :: "jsstring list"
  vd_thumbnailUrl :: jsstring
  vd_categoryId :: jsstring

record search_id =
  sid_videoId :: jsstring

record search_snippet =
  ss_title :: jsstring
  ss_description :: jsstring
  ss_channelTitle :: jsstring
  ss_publishedAt :: jsstring
  ss_thumbnails :: "thumbnails option"

record search_item =
  si_id :: search_id
  si_snippet :: search_snippet

record SearchResult =
  sr_videoId :: jsstring
  sr_title :: jsstring
  sr_description :: jsstring
  sr_channelTitle :: jsstring
  sr_publishedAt :: jsstring
  sr_thumbnailUrl :: jsstring

record channel_snippet =
  chs_title :: jsstring
  chs_description :: jsstring
  chs_customUrl :: "jsstring option"
  chs_publishedAt :: jsstring
  chs_thumbnails :: "thumbnails option"
  chs_country :: "jsstring option"

record channel_statistics =
  cst_subscriberCount :: "jsstring option"
  cst_videoCount :: "jsstring option"
  cst_viewCount :: "jsstring option"

record channel_item =
  ch_id :: jsstring
  ch_snippet :: channel_snippet
  ch_statistics :: channel_statistics

record ChannelInfo =
  ci_id :: jsstring
  ci_title :: jsstring
  ci_description :: jsstring
  ci_customUrl :: jsstring
  ci_publishedAt :: jsstring
  ci_subscriberCount :: jsstring
  ci_videoCount :: jsstring
  ci_viewCount :: jsstring
  ci_thumbnailUrl :: jsstring
  ci_country :: jsstring

record comment_snippet =
  cs_authorDisplayName :: jsstring
  cs_textDisplay :: jsstring
  cs_likeCount :: int
  cs_publishedAt :: jsstring

record top_level_comment =
  tlc_snippet :: comment_snippet

record thread_snippet =
  ts_topLevelComment :: top_level_comment
  ts_totalReplyCount :: int

record thread_item =
  ti_snippet :: thread_snippet

record Comment =
  c_author :: jsstring
  c_text :: jsstring
  c_likeCount :: int
  c_publishedAt :: jsstring
  c_replyCount :: int


section \<open>The four API operations\<close>

text \<open>
  \<open>!data.items?.length\<close> holds when \<open>items\<close> is absent and when it is empty; \<open>data.items[0]\<close>
  is then the head of a non-empty array.
\<close>

definition getVideoDetails ::
  "(request \<Rightarrow> video_item listing http_outcome) \<Rightarrow> jsstring \<Rightarrow> jsstring
     \<Rightarrow> request list \<Rightarrow> (error + VideoDetails) \<times> request list" where
  "getVideoDetails http videoId apiKey sent =
     (case youtubeApiFetch http ''videos''
             [(''part'', Str (js ''snippet,statistics,contentDetails'')),
              (''id'', Str videoId)] apiKey sent of
        (Inl e, sent') \<Rightarrow> (Inl e, sent')
      | (Inr data, sent') \<Rightarrow>
          (case items data of
             None \<Rightarrow> (Inl Video_not_found, sent')
           | Some [] \<Rightarrow> (Inl Video_not_found, sent')
           | Some (item # others) \<Rightarrow>
               (Inr \<lparr>vd_title = vs_title (vi_snippet item),
                     vd_description = vs_description (vi_snippet item),
                     vd_channelTitle = vs_channelTitle (vi_snippet item),
                     vd_channelId = vs_channelId (vi_snippet item),
                     vd_publishedAt = vs_publishedAt (vi_snippet item),
                     vd_viewCount = nullish (vst_viewCount (vi_statistics item)) (js ''N/A''),
                     vd_likeCount = nullish (vst_likeCount (vi_statistics item)) (js ''N/A''),
                     vd_commentCount = nullish (vst_commentCount (vi_statistics item)) (js ''N/A''),
                     vd_duration = vc_duration (vi_contentDetails item),
                     vd_tags = nullish (vs_tags (vi_snippet item)) [],
                     vd_thumbnailUrl = nullish (high_url (vs_thumbnails (vi_snippet item))) [],
                     vd_categoryId = vs_categoryId (vi_snippet item)\<rparr>,
                sent')))"

text \<open>\<open>maxResults: number = 5\<close>: the default stands in for an argument left out.\<close>

definition searchVideos ::
  "(request \<Rightarrow> search_item listing http_outcome) \<Rightarrow> jsstring \<Rightarrow> jsstring \<Rightarrow> real option
     \<Rightarrow> request list \<Rightarrow> (error + SearchResult list) \<times> request list" where
  "searchVideos http query' apiKey maxResults sent =
     (case youtubeApiFetch http ''search''
             [(''part'', Str (js ''snippet'')),
              (''q'', Str query'),
              (''type'', Str (js ''video'')),
              (''maxResults'', String_of (nullish maxResults 5))] apiKey sent of
        (Inl e, sent') \<Rightarrow> (Inl e, sent')
      | (Inr data, sent') \<Rightarrow>
          (Inr (map (\<lambda>item.
                  \<lparr>sr_videoId = sid_videoId (si_id item),
                   sr_title = ss_title (si_snippet item),
                   sr_description = ss_description (si_snippet item),
                   sr_channelTitle = ss_channelTitle (si_snippet item),
                   sr_publishedAt = ss_publishedAt (si_snippet item),
                   sr_thumbnailUrl = nullish (high_url (ss_thumbnails (si_snippet item))) []\<rparr>)
                (nullish (items data) [])),
           sent'))"

definition getChannelInfo ::
  "(request \<Rightarrow> channel_item listing http_outcome) \<Rightarrow> channel_identifier \<Rightarrow> jsstring
     \<Rightarrow> request list \<Rightarrow> (error + ChannelInfo) \<times> request list" where
  "getChannelInfo http identifier apiKey sent =
     (let params = [(''part'', Str (js ''snippet,statistics''))];
          params =
            (if ident_type identifier = Type_id
             then set_param ''id'' (Str (ident_value identifier)) params
             else if ident_type identifier = Type_handle
             then set_param ''forHandle'' (Str (ident_value identifier)) params
             else set_param ''forUsername'' (Str (ident_value identifier)) params)
      in case youtubeApiFetch http ''channels'' params apiKey sent of
           (Inl e, sent') \<Rightarrow> (Inl e, sent')
         | (Inr data, sent') \<Rightarrow>
             (case items data of
                None \<Rightarrow> (Inl Channel_not_found, sent')
              | Some [] \<Rightarrow> (Inl Channel_not_found, sent')
              | Some (item # others) \<Rightarrow>
                  (Inr \<lparr>ci_id = ch_id item,
                        ci_title = chs_title (ch_snippet item),
                        ci_description = chs_description (ch_snippet item),
                        ci_customUrl = nullish (chs_customUrl (ch_snippet item)) [],
                        ci_publishedAt = chs_publishedAt (ch_snippet item),
                        ci_subscriberCount =
                          nullish (cst_subscriberCount (ch_statistics item)) (js ''hidden''),
                        ci_videoCount = nullish (cst_videoCount (ch_statistics item)) (js ''0''),
                        ci_viewCount = nullish (cst_viewCount (ch_statistics item)) (js ''0''),
                        ci_thumbnailUrl =
                          nullish (high_url (chs_thumbnails (ch_snippet item))) [],
                        ci_country = nullish (chs_country (ch_snippet item)) (js ''N/A'')\<rparr>,
                   sent')))"

definition getVideoComments ::
  "(request \<Rightarrow> thread_item listing http_outcome) \<Rightarrow> jsstring \<Rightarrow> jsstring \<Rightarrow> real option
     \<Rightarrow> request list \<Rightarrow> (error + Comment list) \<times> request list" where
  "getVideoComments http videoId apiKey maxResults sent =
     (case youtubeApiFetch http ''commentThreads''
             [(''part'', Str (js ''snippet'')),
              (''videoId'', Str videoId),
              (''maxResults'', String_of (nullish maxResults 20)),
              (''order'', Str (js ''relevance'')),
              (''textFormat'', Str (js ''plainText''))] apiKey sent of
        (Inl e, sent') \<Rightarrow> (Inl e, sent')
      | (Inr data, sent') \<Rightarrow>
          (Inr (map (\<lambda>item.
                  (let top = tlc_snippet (ts_topLevelComment (ti_snippet item))
                   in \<lparr>c_author = cs_authorDisplayName top,
                       c_text = cs_textDisplay top,
                       c_likeCount = cs_likeCount top,
                       c_publishedAt = cs_publishedAt top,
                       c_replyCount = ts_totalReplyCount (ti_snippet item)\<rparr>))
                (nullish (items data) [])),
           sent'))"

section \<open>The tools\<close>

text \<open>
  A tool's answer: its \<open>content\<close> (one text item) and the \<open>isError\<close> mark (absent on
  success, here \<open>False\<close>).  The text is a string, or \<open>JSON.stringify\<close> of a result (kept as
  the result), or a fixed prefix followed by the message of the error caught (kept as the
  prefix and the error).
\<close>

datatype 'a payload =
    Text_payload jsstring
  | Json_payload 'a
  | Error_payload string error

record 'a tool_result =
  content :: "'a payload"
  isError :: bool

text \<open>
  \<open>!videoId\<close> for a \<open>string | null\<close>: true for \<open>null\<close> and for the empty string.  Where it is
  false the value is a string, read with \<open>the\<close>.
\<close>

definition falsy :: "jsstring option \<Rightarrow> bool" where
  "falsy v = (case v of None \<Rightarrow> True | Some s \<Rightarrow> s = [])"

text \<open>
  The captions library is a collaborator outside the repository:
  \<open>YoutubeTranscript.fetchTranscript(videoId, { lang })\<close> resolves to caption fragments or
  rejects.  It is the parameter \<open>fetchTranscript\<close>, from the video ID and the language.
\<close>

record transcript_item =
  tr_text :: jsstring
  tr_duration :: real
  tr_offset :: real

definition get_transcript ::
  "(jsstring \<Rightarrow> jsstring \<Rightarrow> error + transcript_item list) \<Rightarrow> jsstring \<Rightarrow> jsstring option
     \<Rightarrow> 'a tool_result" where
  "get_transcript fetchTranscript url' language =
     (let videoId = extractVideoId url' in
      if falsy videoId
      then \<lparr>content =
              Text_payload (js ''Error: Could not extract a valid video ID from the provided URL.''),
            isError = True\<rparr>
      else
        (let lang = nullish language (js ''en'') in
         case fetchTranscript (the videoId) lang of
           Inl e \<Rightarrow> \<lparr>content = Error_payload ''Error fetching transcript: '' e, isError = True\<rparr>
         | Inr fragments \<Rightarrow>
             (let transcript = join (js '' '') (map tr_text fragments) in
              \<lparr>content =
                 Text_payload
                   (if transcript = [] then js ''No transcript content found.'' else transcript),
               isError = False\<rparr>)))"

text \<open>
  The handlers of \<open>search_videos\<close> and \<open>get_video_comments\<close>, from the tool's arguments;
  \<open>env.YOUTUBE_API_KEY\<close> is the parameter \<open>apiKey\<close>.
\<close>

definition search_videos_handler ::
  "(request \<Rightarrow> search_item listing http_outcome) \<Rightarrow> jsstring \<Rightarrow> jsstring \<times> real option
     \<Rightarrow> request list \<Rightarrow> SearchResult list tool_result \<times> request list" where
  "search_videos_handler http apiKey args sent =
     (case args of (query', maxResults) \<Rightarrow>
        (case searchVideos http query' apiKey (Some (nullish maxResults 5)) sent of
           (Inr results, sent') \<Rightarrow> (\<lparr>content = Json_payload results, isError = False\<rparr>, sent')
         | (Inl e, sent') \<Rightarrow>
             (\<lparr>content = Error_payload ''Error searching videos: '' e, isError = True\<rparr>, sent')))"

definition get_video_comments_handler ::
  "(request \<Rightarrow> thread_item listing http_outcome) \<Rightarrow> jsstring \<Rightarrow> jsstring \<times> real option
     \<Rightarrow> request list \<Rightarrow> Comment list tool_result \<times> request list" where
  "get_video_comments_handler http apiKey args sent =
     (case args of (url', maxResults) \<Rightarrow>
        (let videoId = extractVideoId url' in
         if falsy videoId
         then (\<lparr>content =
                  Text_payload
                    (js ''Error: Could not extract a valid video ID from the provided URL.''),
                isError = True\<rparr>, sent)
         else
           (case getVideoComments http (the videoId) apiKey (Some (nullish maxResults 20)) sent of
              (Inr comments, sent') \<Rightarrow>
                (\<lparr>content = Json_payload comments, isError = False\<rparr>, sent')
            | (Inl e, sent') \<Rightarrow>
                (\<lparr>content = Error_payload ''Error fetching comments: '' e, isError = True\<rparr>,
                 sent'))))"

text \<open>
  Modelled from the spec: the schema library, whose \<open>z.number().min(lo).max(hi).optional()\<close>
  the source declares for \<open>maxResults\<close>, is not in the repository.  The spec gives
  \<open>maxResults\<close> as optional and bounds-checked at the operation boundary, 1 to 25 for search
  and 1 to 100 for comments, both ends included.
\<close>

definition optional_number_between :: "real \<Rightarrow> real \<Rightarrow> real option \<Rightarrow> bool" where
  "optional_number_between lo hi v = (case v of None \<Rightarrow> True | Some n \<Rightarrow> lo \<le> n \<and> n \<le> hi)"

text \<open>
  Modelled from the spec: the tool-hosting layer (\<open>this.server.tool\<close> of the server
  library) is a collaborator whose code is not in the repository.  It checks a call's
  arguments against the tool's schema; a call that fails the schema is answered by the
  layer and never reaches the handler, so it is rejected before any network call.
\<close>

datatype 'a tool_outcome = Invalid_arguments | Handled "'a tool_result"

definition server_tool ::
  "('args \<Rightarrow> bool) \<Rightarrow> ('args \<Rightarrow> request list \<Rightarrow> 'a tool_result \<times> request list)
     \<Rightarrow> 'args \<Rightarrow> request list \<Rightarrow> 'a tool_outcome \<times> request list" where
  "server_tool schema handler args sent =
     (if schema args
      then (case handler args sent of (result, sent') \<Rightarrow> (Handled result, sent'))
      else (Invalid_arguments, sent))"

text \<open>The two tools as registered: the schema of the source, then the handler.\<close>

definition search_videos ::
  "(request \<Rightarrow> search_item listing http_outcome) \<Rightarrow> jsstring \<Rightarrow> jsstring \<times> real option
     \<Rightarrow> request list \<Rightarrow> SearchResult list tool_outcome \<times> request list" where
  "search_videos http apiKey =
     server_tool (\<lambda>(query', maxResults). optional_number_between 1 25 maxResults)
       (search_videos_handler http apiKey)"

definition get_video_comments ::
  "(request \<Rightarrow> thread_item listing http_outcome) \<Rightarrow> jsstring \<Rightarrow> jsstring \<times> real option
     \<Rightarrow> request list \<Rightarrow> Comment list tool_outcome \<times> request list" where
  "get_video_comments http apiKey =
     server_tool (\<lambda>(url', maxResults). optional_number_between 1 100 maxResults)
       (get_video_comments_handler http apiKey)"


section \<open>Properties of the identifier parser\<close>

lemmas eval_defs = js_def trim_def trimmable_def white_space_def line_terminator_def
  extractVideoId_def raw_id_test_def re_class_n_def id_char_def handle_char_def in_range_def
  VIDEO_ID_PATTERNS_def watch_pattern_def path_pattern_def group11_def re_star_def re_plus_def
  dot_def startsWith_def channel_url_pattern_def handle_url_pattern_def
  extractChannelIdentifier_def

subsection \<open>What a successful match hands on\<close>

lemma re_lit_SomeD: "re_lit l k s = Some r \<Longrightarrow> \<exists>rest. k rest = Some r"
  by (induction l k s rule: re_lit.induct) (auto split: if_splits)

lemma re_greedy_SomeD: "re_greedy p k acc s = Some r \<Longrightarrow> \<exists>g rest. k g rest = Some r"
  by (induction p k acc s rule: re_greedy.induct) (auto split: if_splits option.splits)

lemma re_search_SomeD: "re_search m s = Some r \<Longrightarrow> \<exists>t. m t = Some r"
  by (induction m s rule: re_search.induct) (auto split: option.splits)

lemma group11_SomeD: "group11 s = Some g \<Longrightarrow> length g = 11 \<and> list_all id_char g"
  by (auto simp: group11_def re_class_n_def split: if_splits)

lemma watch_pattern_SomeD:
  assumes "watch_pattern s = Some g"
  shows "length g = 11 \<and> list_all id_char g"
proof -
  from assms obtain t where
    "re_lit (js ''youtube.com/watch?'') (re_star dot (\<lambda>skipped. re_lit (js ''v='') group11)) t = Some g"
    unfolding watch_pattern_def by (blast dest: re_search_SomeD)
  then obtain u where "re_star dot (\<lambda>skipped. re_lit (js ''v='') group11) u = Some g"
    by (blast dest: re_lit_SomeD)
  then obtain w where "re_lit (js ''v='') group11 w = Some g"
    unfolding re_star_def by (blast dest: re_greedy_SomeD)
  then obtain x where "group11 x = Some g"
    by (blast dest: re_lit_SomeD)
  then show ?thesis by (rule group11_SomeD)
qed

lemma path_pattern_SomeD:
  assumes "path_pattern marker s = Some g"
  shows "length g = 11 \<and> list_all id_char g"
proof -
  from assms obtain t where "re_lit (js marker) group11 t = Some g"
    unfolding path_pattern_def by (blast dest: re_search_SomeD)
  then obtain x where "group11 x = Some g"
    by (blast dest: re_lit_SomeD)
  then show ?thesis by (rule group11_SomeD)
qed

lemma first_match_SomeD:
  "first_match ps t = Some g \<Longrightarrow> \<exists>p \<in> set ps. p t = Some g"
  by (induction ps) (auto split: option.splits)

lemma first_match_None_iff:
  "first_match ps t = None \<longleftrightarrow> (\<forall>p \<in> set ps. p t = None)"
  by (induction ps) (auto split: option.splits)

lemma raw_id_test_iff: "raw_id_test s \<longleftrightarrow> length s = 11 \<and> list_all id_char s"
  by (auto simp: raw_id_test_def re_class_n_def)

lemma trim_all_trimmable: "list_all trimmable s \<Longrightarrow> trim s = []"
proof -
  assume "list_all trimmable s"
  then have d: "dropWhile trimmable s = []" by (induction s) auto
  show ?thesis unfolding trim_def d by simp
qed

subsection \<open>The video ID\<close>

lemma patterns_SomeD:
  assumes "first_match VIDEO_ID_PATTERNS t = Some v"
  shows "length v = 11 \<and> list_all id_char v"
proof -
  from assms obtain p where "p \<in> set VIDEO_ID_PATTERNS" and "p t = Some v"
    by (blast dest: first_match_SomeD)
  then show ?thesis
    unfolding VIDEO_ID_PATTERNS_def
    by (auto dest: watch_pattern_SomeD path_pattern_SomeD)
qed

lemma extractVideoId_not_falsy: "falsy (extractVideoId input) \<longleftrightarrow> extractVideoId input = None"
proof (cases "extractVideoId input")
  case None
  then show ?thesis by (simp add: falsy_def)
next
  case (Some v)
  then have "length v = 11"
    by (auto simp: extractVideoId_def Let_def raw_id_test_iff split: if_splits
        dest: patterns_SomeD)
  then have "v \<noteq> []" by auto
  with Some show ?thesis by (simp add: falsy_def)
qed

text \<open>
  Claim C9.  Whatever \<open>extractVideoId\<close> returns other than \<open>null\<close> is 11 code units long,
  each of them in \<open>[A-Za-z0-9_-]\<close>.
\<close>

theorem extractVideoId_shape:
  assumes "extractVideoId input = Some v"
  shows "length v = 11 \<and> list_all id_char v"
proof (cases "raw_id_test (trim input)")
  case True
  with assms have "v = trim input" by (simp add: extractVideoId_def)
  with True show ?thesis by (simp add: raw_id_test_iff)
next
  case False
  with assms have "first_match VIDEO_ID_PATTERNS (trim input) = Some v"
    by (simp add: extractVideoId_def)
  then show ?thesis by (rule patterns_SomeD)
qed

theorem extractVideoId_shape_witness:
  "extractVideoId (js ''https://youtu.be/dQw4w9WgXcQ?t=42'') = Some (js ''dQw4w9WgXcQ'')
   \<and> length (js ''dQw4w9WgXcQ'') = 11 \<and> list_all id_char (js ''dQw4w9WgXcQ'')"
proof -
  have h: "extractVideoId (js ''https://youtu.be/dQw4w9WgXcQ?t=42'') = Some (js ''dQw4w9WgXcQ'')"
    by (simp add: eval_defs)
  from extractVideoId_shape [OF h] h show ?thesis by simp
qed

text \<open>
  Claim C8.  \<open>extractVideoId\<close> returns \<open>null\<close> exactly when the raw-ID test fails on the
  trimmed input and none of the six patterns matches it; so an input that nothing
  matches, a playlist URL or a URL of another site among them, gets \<open>null\<close>.  The function
  has no other outcome: the source has no \<open>throw\<close>, and \<open>trim\<close>, \<open>test\<close>, \<open>match\<close> and the
  read of group 1 of a match cannot fail on a string.
\<close>

theorem extractVideoId_none:
  "extractVideoId input = None \<longleftrightarrow>
     \<not> raw_id_test (trim input) \<and> (\<forall>pattern \<in> set VIDEO_ID_PATTERNS. pattern (trim input) = None)"
  by (simp add: extractVideoId_def Let_def first_match_None_iff)

theorem extractVideoId_none_witness:
  "\<not> raw_id_test (trim (js ''https://example.com/not-youtube''))
   \<and> list_all (\<lambda>pattern. pattern (trim (js ''https://example.com/not-youtube'')) = None)
         VIDEO_ID_PATTERNS
   \<and> extractVideoId (js ''https://example.com/not-youtube'') = None
   \<and> extractVideoId (js ''https://www.youtube.com/playlist?list=PLrAXtmErZgOeiKm4sgNOknGvNjby9efdf'')
       = None"
proof -
  have a: "\<not> raw_id_test (trim (js ''https://example.com/not-youtube''))"
    by (simp add: eval_defs)
  have b: "list_all (\<lambda>pattern. pattern (trim (js ''https://example.com/not-youtube'')) = None)
             VIDEO_ID_PATTERNS"
    by (simp add: eval_defs)
  have c: "extractVideoId (js ''https://example.com/not-youtube'') = None"
    using a b extractVideoId_none [of "js ''https://example.com/not-youtube''"]
    by (simp add: list_all_iff)
  have d: "extractVideoId
             (js ''https://www.youtube.com/playlist?list=PLrAXtmErZgOeiKm4sgNOknGvNjby9efdf'') = None"
    by (simp add: eval_defs)
  from a b c d show ?thesis by simp
qed

subsection \<open>The channel identifier\<close>

text \<open>
  Claim C10.  \<open>extractChannelIdentifier\<close> never returns \<open>null\<close>; on an input that is empty
  or all white space it returns the handle-tagged identifier with the empty value.
\<close>

theorem extractChannelIdentifier_total:
  "extractChannelIdentifier input \<noteq> None \<and>
   (list_all trimmable input \<longrightarrow>
      extractChannelIdentifier input = Some \<lparr>ident_type = Type_handle, ident_value = []\<rparr>)"
proof
  show "extractChannelIdentifier input \<noteq> None"
    by (simp add: extractChannelIdentifier_def Let_def split: option.splits)
next
  show "list_all trimmable input \<longrightarrow>
      extractChannelIdentifier input = Some \<lparr>ident_type = Type_handle, ident_value = []\<rparr>"
  proof
    assume "list_all trimmable input"
    then have "trim input = []" by (rule trim_all_trimmable)
    then show "extractChannelIdentifier input = Some \<lparr>ident_type = Type_handle, ident_value = []\<rparr>"
      by (simp add: extractChannelIdentifier_def channel_url_pattern_def handle_url_pattern_def
          startsWith_def js_def)
  qed
qed

theorem extractChannelIdentifier_total_witness:
  "list_all trimmable (js '' '') \<and> extractChannelIdentifier (js '' '') \<noteq> None
   \<and> extractChannelIdentifier (js '' '') = Some \<lparr>ident_type = Type_handle, ident_value = []\<rparr>
   \<and> extractChannelIdentifier [] = Some \<lparr>ident_type = Type_handle, ident_value = []\<rparr>"
proof -
  have h: "list_all trimmable (js '' '')"
    by (simp add: js_def trimmable_def white_space_def)
  from h extractChannelIdentifier_total [of "js '' ''"] extractChannelIdentifier_total [of "[]"]
  show ?thesis by simp
qed

text \<open>No input gets the username tag.\<close>

lemma extractChannelIdentifier_never_username:
  "extractChannelIdentifier input = Some r \<Longrightarrow> ident_type r \<noteq> Type_username"
  by (auto simp: extractChannelIdentifier_def Let_def split: option.splits if_splits)

text \<open>
  Claim C1, as amended.  An input whose trimmed form matches neither the channel-URL
  pattern nor the handle-URL pattern, does not start with \<open>@\<close>, and is not 24 code units
  starting with \<open>UC\<close>, gets the handle-tagged identifier whose value is the trimmed input.
  (The claim has the username tag there; the counterexample is the input \<open>mkbhd\<close>.)
\<close>

theorem extractChannelIdentifier_fallback:
  assumes "channel_url_pattern (trim input) = None"
    and "handle_url_pattern (trim input) = None"
    and "\<not> startsWith (trim input) (js ''@'')"
    and "\<not> (startsWith (trim input) (js ''UC'') \<and> length (trim input) = 24)"
  shows "extractChannelIdentifier input = Some \<lparr>ident_type = Type_handle, ident_value = trim input\<rparr>"
  using assms by (simp add: extractChannelIdentifier_def Let_def)

theorem extractChannelIdentifier_fallback_witness:
  "channel_url_pattern (trim (js '' mkbhd '')) = None
   \<and> handle_url_pattern (trim (js '' mkbhd '')) = None
   \<and> \<not> startsWith (trim (js '' mkbhd '')) (js ''@'')
   \<and> \<not> (startsWith (trim (js '' mkbhd '')) (js ''UC'') \<and> length (trim (js '' mkbhd '')) = 24)
   \<and> extractChannelIdentifier (js '' mkbhd '')
       = Some \<lparr>ident_type = Type_handle, ident_value = js ''mkbhd''\<rparr>"
proof -
  have t: "trim (js '' mkbhd '') = js ''mkbhd''"
    by (simp add: js_def trim_def trimmable_def white_space_def line_terminator_def)
  have a: "channel_url_pattern (trim (js '' mkbhd '')) = None"
    unfolding t by (simp add: eval_defs)
  have b: "handle_url_pattern (trim (js '' mkbhd '')) = None"
    unfolding t by (simp add: eval_defs)
  have c: "\<not> startsWith (trim (js '' mkbhd '')) (js ''@'')"
    unfolding t by (simp add: eval_defs)
  have d: "\<not> (startsWith (trim (js '' mkbhd '')) (js ''UC'') \<and> length (trim (js '' mkbhd '')) = 24)"
    unfolding t by (simp add: eval_defs)
  from extractChannelIdentifier_fallback [OF a b c d] a b c d t show ?thesis by simp
qed

theorem extractChannelIdentifier_username_counterexample:
  "channel_url_pattern (trim (js ''mkbhd'')) = None
   \<and> handle_url_pattern (trim (js ''mkbhd'')) = None
   \<and> \<not> startsWith (trim (js ''mkbhd'')) (js ''@'')
   \<and> \<not> (startsWith (trim (js ''mkbhd'')) (js ''UC'') \<and> length (trim (js ''mkbhd'')) = 24)
   \<and> extractChannelIdentifier (js ''mkbhd'')
       \<noteq> Some \<lparr>ident_type = Type_username, ident_value = trim (js ''mkbhd'')\<rparr>"
  by (simp add: eval_defs)

subsection \<open>URLs that embed a video ID\<close>

text \<open>
  How the search, a literal and the greedy repetition behave on an input known in parts.
\<close>

lemma group11_append:
  "length v = 11 \<Longrightarrow> list_all id_char v \<Longrightarrow> group11 (v @ s) = Some v"
  by (simp add: group11_def re_class_n_def)

lemma re_lit_append: "re_lit l k (l @ r) = k r"
  by (induction l) auto

lemma re_lit_absent: "c \<in> set l \<Longrightarrow> c \<notin> set t \<Longrightarrow> re_lit l k t = None"
  by (induction l k t rule: re_lit.induct) auto

lemma re_search_lit_absent: "c \<in> set l \<Longrightarrow> c \<notin> set t \<Longrightarrow> re_search (re_lit l k) t = None"
proof (induction t)
  case Nil
  then show ?case by (cases l) auto
next
  case (Cons d ds)
  then have "re_lit l k (d # ds) = None" by (intro re_lit_absent) auto
  with Cons show ?case by simp
qed

lemma re_search_None_drop: "re_search m t = None \<Longrightarrow> m (drop i t) = None"
proof (induction t arbitrary: i)
  case Nil
  then show ?case by simp
next
  case (Cons d ds)
  then show ?case by (cases i) (auto split: option.splits)
qed

lemma re_search_skip:
  "y \<notin> set p \<Longrightarrow> re_search (re_lit (y # l) k) (p @ r) = re_search (re_lit (y # l) k) r"
  by (induction p) auto

lemma re_search_hit: "m t = Some r \<Longrightarrow> re_search m t = Some r"
  by (cases t) auto

text \<open>
  The greedy repetition ends at the last position its continuation accepts: when the
  continuation fails at every later position, the match is the one at hand.
\<close>

lemma re_greedy_last:
  "(\<And>i a. 0 < i \<Longrightarrow> i \<le> length u \<Longrightarrow> k a (drop i u) = None) \<Longrightarrow> re_greedy p k acc u = k acc u"
proof (induction u arbitrary: acc)
  case Nil
  then show ?case by simp
next
  case (Cons c cs)
  have "re_greedy p k (acc @ [c]) cs = k (acc @ [c]) cs"
  proof (rule Cons.IH)
    fix i a assume "0 < i" "i \<le> length cs"
    then show "k a (drop i cs) = None"
      using Cons.prems [of "Suc i" a] by simp
  qed
  moreover have "k (acc @ [c]) cs = None"
    using Cons.prems [of 1 "acc @ [c]"] by simp
  ultimately show ?case by simp
qed

lemma re_greedy_reach:
  "list_all p q \<Longrightarrow> (\<And>i a. 0 < i \<Longrightarrow> i \<le> length u \<Longrightarrow> k a (drop i u) = None)
     \<Longrightarrow> k (acc @ q) u = Some r \<Longrightarrow> re_greedy p k acc (q @ u) = Some r"
proof (induction q arbitrary: acc)
  case Nil
  then show ?case by (simp add: re_greedy_last)
next
  case (Cons c cs)
  from Cons.prems have "re_greedy p k (acc @ [c]) (cs @ u) = Some r"
    by (intro Cons.IH) auto
  with Cons.prems(1) show ?case by simp
qed

lemma slash_not_in_id: "list_all id_char v \<Longrightarrow> of_char CHR ''/'' \<notin> set v"
proof -
  have "\<not> id_char (of_char CHR ''/'')"
    by (simp add: id_char_def in_range_def)
  then show "list_all id_char v \<Longrightarrow> of_char CHR ''/'' \<notin> set v"
    by (auto simp: list_all_iff)
qed

text \<open>
  Where the function does return the embedded ID.  The raw ID: the trimmed input is 11
  ID characters, and it is returned before any pattern is tried.
\<close>

lemma extractVideoId_raw:
  assumes "length (trim input) = 11" and "list_all id_char (trim input)"
  shows "extractVideoId input = Some (trim input)"
  using assms by (simp add: extractVideoId_def raw_id_test_iff)

text \<open>
  A watch URL: anything without the letter \<open>y\<close> (a scheme, a host prefix), then
  \<open>youtube.com/watch?\<close>, other parameters on one line, \<open>v=\<close> and the ID, then a rest in
  which, from the ID on, no \<open>v=\<close> is followed by 11 ID characters.
\<close>

lemma extractVideoId_watch_url:
  assumes v: "length v = 11" "list_all id_char v"
    and t: "trim input = p @ js ''youtube.com/watch?'' @ q @ js ''v='' @ v @ s"
    and p: "of_char CHR ''y'' \<notin> set p"
    and q: "list_all dot q"
    and s: "re_search (re_lit (js ''v='') group11) (v @ s) = None"
  shows "extractVideoId input = Some v"
proof -
  let ?k = "\<lambda>skipped. re_lit (js ''v='') group11"
  have later: "?k a (drop i (js ''v='' @ v @ s)) = None" if "0 < i" for i and a :: jsstring
  proof (cases i)
    case 0
    with that show ?thesis by simp
  next
    case (Suc j)
    show ?thesis
    proof (cases j)
      case 0
      with Suc show ?thesis by (simp add: js_def)
    next
      case (Suc n)
      with \<open>i = Suc j\<close> have d: "drop i (js ''v='' @ v @ s) = drop n (v @ s)"
        by (simp add: js_def)
      have "re_lit (js ''v='') group11 (drop n (v @ s)) = None"
        using s by (rule re_search_None_drop)
      then show ?thesis by (simp only: d)
    qed
  qed
  have here: "?k ([] @ q) (js ''v='' @ v @ s) = Some v"
    using v by (simp add: re_lit_append group11_append)
  have "re_greedy dot ?k [] (q @ js ''v='' @ v @ s) = Some v"
  proof (rule re_greedy_reach [where k = ?k and acc = "[]"])
    show "list_all dot q" by (rule q)
  next
    fix i :: nat and a :: jsstring
    assume "0 < i"
    then show "?k a (drop i (js ''v='' @ v @ s)) = None" by (rule later)
  next
    show "?k ([] @ q) (js ''v='' @ v @ s) = Some v" by (rule here)
  qed
  then have "re_lit (js ''youtube.com/watch?'') (re_star dot ?k)
               (js ''youtube.com/watch?'' @ q @ js ''v='' @ v @ s) = Some v"
    by (simp add: re_lit_append re_star_def)
  then have "re_search (re_lit (js ''youtube.com/watch?'') (re_star dot ?k))
               (js ''youtube.com/watch?'' @ q @ js ''v='' @ v @ s) = Some v"
    by (rule re_search_hit)
  moreover have "re_search (re_lit (js ''youtube.com/watch?'') (re_star dot ?k)) (trim input)
     = re_search (re_lit (js ''youtube.com/watch?'') (re_star dot ?k))
               (js ''youtube.com/watch?'' @ q @ js ''v='' @ v @ s)"
    unfolding t using p by (simp add: js_def re_search_skip)
  ultimately have w: "watch_pattern (trim input) = Some v"
    by (simp add: watch_pattern_def)
  have "length (trim input) \<noteq> 11" using v t by (simp add: js_def)
  then have "\<not> raw_id_test (trim input)" by (simp add: raw_id_test_iff)
  with w show ?thesis by (simp add: extractVideoId_def VIDEO_ID_PATTERNS_def)
qed

text \<open>
  A URL of one of the five path shapes: anything without the letter \<open>y\<close>, then the
  marker and the ID, then a rest without \<open>/\<close>.
\<close>

lemma extractVideoId_path_url:
  assumes v: "length v = 11" "list_all id_char v"
    and m: "marker \<in> {''youtu.be/'', ''youtube.com/embed/'', ''youtube.com/shorts/'',
                      ''youtube.com/live/'', ''youtube.com/v/''}"
    and t: "trim input = p @ js marker @ v @ s"
    and p: "of_char CHR ''y'' \<notin> set p"
    and s: "of_char CHR ''/'' \<notin> set s"
  shows "extractVideoId input = Some v"
proof -
  have nin: "of_char CHR ''/'' \<notin> set (v @ s)"
    using slash_not_in_id [OF v(2)] s by simp
  have tail: "re_search (re_lit l k) (v @ s) = None" if "of_char CHR ''/'' \<in> set l"
    for l and k :: "jsstring \<Rightarrow> jsstring option"
    using that nin by (rule re_search_lit_absent)
  have hit: "group11 (v @ s) = Some v"
    using v by (rule group11_append)
  have "marker \<noteq> []" using m by auto
  then have "length (trim input) \<noteq> 11" using v t by (simp add: js_def)
  then have nr: "\<not> raw_id_test (trim input)" by (simp add: raw_id_test_iff)
  have "first_match VIDEO_ID_PATTERNS (p @ js marker @ v @ s) = Some v"
    using m p tail hit
    by (auto simp add: VIDEO_ID_PATTERNS_def watch_pattern_def path_pattern_def js_def re_search_skip)
  with nr t show ?thesis by (simp add: extractVideoId_def)
qed

lemma extractVideoId_readme_urls:
  "list_all (\<lambda>u. extractVideoId (js u) = Some (js ''dQw4w9WgXcQ''))
     [''dQw4w9WgXcQ'',
      ''https://www.youtube.com/watch?v=dQw4w9WgXcQ'',
      ''https://youtu.be/dQw4w9WgXcQ'',
      ''https://www.youtube.com/embed/dQw4w9WgXcQ'',
      ''https://www.youtube.com/shorts/dQw4w9WgXcQ'',
      ''https://www.youtube.com/live/dQw4w9WgXcQ'',
      ''https://www.youtube.com/v/dQw4w9WgXcQ'']"
  by (simp add: eval_defs)

text \<open>
  Claim C3 does not hold of the code.  In the watch pattern \<open>.*\<close> is greedy, so group 1 is
  what follows the last \<open>v=\<close> that has 11 ID characters after it, not the \<open>v\<close> parameter:
  on the watch URL of the video \<open>dQw4w9WgXcQ\<close> below, whose later parameter \<open>rv\<close> ends
  in \<open>v=\<close>, the function returns \<open>9bZkp7q19f0\<close>.
\<close>

theorem watch_url_later_v:
  "js ''https://www.youtube.com/watch?v=dQw4w9WgXcQ&rv=9bZkp7q19f0''
     = js ''https://www.youtube.com/watch?v='' @ js ''dQw4w9WgXcQ'' @ js ''&rv=9bZkp7q19f0''
   \<and> length (js ''dQw4w9WgXcQ'') = 11 \<and> list_all id_char (js ''dQw4w9WgXcQ'')
   \<and> extractVideoId (js ''https://www.youtube.com/watch?v=dQw4w9WgXcQ&rv=9bZkp7q19f0'')
       = Some (js ''9bZkp7q19f0'')
   \<and> js ''9bZkp7q19f0'' \<noteq> js ''dQw4w9WgXcQ''"
  by (simp add: eval_defs)

section \<open>Properties of the API operations\<close>

subsection \<open>The request each operation sends\<close>

lemma youtubeApiFetch_sent:
  "snd (youtubeApiFetch http e ps k sent)
     = sent @ [\<lparr>endpoint = e, query = fold (\<lambda>(k, v). set_param k v) ps [(''key'', Str k)]\<rparr>]"
  by (simp add: youtubeApiFetch_def Let_def split: http_outcome.splits)

lemma getVideoDetails_sent:
  "snd (getVideoDetails http videoId apiKey sent)
     = sent @ [\<lparr>endpoint = ''videos'',
                query = [(''key'', Str apiKey),
                         (''part'', Str (js ''snippet,statistics,contentDetails'')),
                         (''id'', Str videoId)]\<rparr>]"
  by (simp add: getVideoDetails_def youtubeApiFetch_def Let_def
      split: http_outcome.splits option.splits list.splits)

lemma searchVideos_sent:
  "snd (searchVideos http q apiKey m sent)
     = sent @ [\<lparr>endpoint = ''search'',
                query = [(''key'', Str apiKey),
                         (''part'', Str (js ''snippet'')),
                         (''q'', Str q),
                         (''type'', Str (js ''video'')),
                         (''maxResults'', String_of (nullish m 5))]\<rparr>]"
  by (simp add: searchVideos_def youtubeApiFetch_def Let_def
      split: http_outcome.splits option.splits list.splits)

lemma getVideoComments_sent:
  "snd (getVideoComments http videoId apiKey m sent)
     = sent @ [\<lparr>endpoint = ''commentThreads'',
                query = [(''key'', Str apiKey),
                         (''part'', Str (js ''snippet'')),
                         (''videoId'', Str videoId),
                         (''maxResults'', String_of (nullish m 20)),
                         (''order'', Str (js ''relevance'')),
                         (''textFormat'', Str (js ''plainText''))]\<rparr>]"
  by (simp add: getVideoComments_def youtubeApiFetch_def Let_def
      split: http_outcome.splits option.splits list.splits)

lemma getChannelInfo_sent:
  "snd (getChannelInfo http ident apiKey sent)
     = sent @ [\<lparr>endpoint = ''channels'',
                query = [(''key'', Str apiKey),
                         (''part'', Str (js ''snippet,statistics'')),
                         (case ident_type ident of
                            Type_id \<Rightarrow> ''id''
                          | Type_handle \<Rightarrow> ''forHandle''
                          | Type_username \<Rightarrow> ''forUsername'',
                          Str (ident_value ident))]\<rparr>]"
  by (cases "ident_type ident")
     (simp_all add: getChannelInfo_def youtubeApiFetch_def Let_def
        split: http_outcome.splits option.splits list.splits)

text \<open>
  Claim C7.  A channel identifier has one of three tags, and the request of
  \<open>getChannelInfo\<close> carries, after \<open>key\<close> and \<open>part\<close>, exactly one more parameter, named by
  the tag: \<open>id\<close> for the tag id, \<open>forHandle\<close> for handle, \<open>forUsername\<close> for username; its
  value is the identifier's value.
\<close>

theorem channel_parameter_by_tag:
  "(ident_type (ident :: channel_identifier) = Type_id \<or> ident_type ident = Type_handle \<or> ident_type ident = Type_username)
   \<and> snd (getChannelInfo http \<lparr>ident_type = Type_id, ident_value = v\<rparr> apiKey sent)
     = sent @ [\<lparr>endpoint = ''channels'',
                query = [(''key'', Str apiKey), (''part'', Str (js ''snippet,statistics'')),
                         (''id'', Str v)]\<rparr>]
   \<and> snd (getChannelInfo http \<lparr>ident_type = Type_handle, ident_value = v\<rparr> apiKey sent)
     = sent @ [\<lparr>endpoint = ''channels'',
                query = [(''key'', Str apiKey), (''part'', Str (js ''snippet,statistics'')),
                         (''forHandle'', Str v)]\<rparr>]
   \<and> snd (getChannelInfo http \<lparr>ident_type = Type_username, ident_value = v\<rparr> apiKey sent)
     = sent @ [\<lparr>endpoint = ''channels'',
                query = [(''key'', Str apiKey), (''part'', Str (js ''snippet,statistics'')),
                         (''forUsername'', Str v)]\<rparr>]"
proof -
  have "ident_type ident = Type_id \<or> ident_type ident = Type_handle
          \<or> ident_type ident = Type_username"
    by (cases "ident_type ident") simp_all
  then show ?thesis by (simp add: getChannelInfo_sent)
qed

theorem channel_parameter_by_tag_witness:
  "snd (getChannelInfo (\<lambda>req. Not_ok 404 (js ''gone''))
          \<lparr>ident_type = Type_handle, ident_value = js ''@mkbhd''\<rparr> (js ''KEY'') [])
     = [\<lparr>endpoint = ''channels'',
         query = [(''key'', Str (js ''KEY'')), (''part'', Str (js ''snippet,statistics'')),
                  (''forHandle'', Str (js ''@mkbhd''))]\<rparr>]"
  using channel_parameter_by_tag
    [where http = "\<lambda>req. Not_ok 404 (js ''gone'')" and v = "js ''@mkbhd''" and apiKey = "js ''KEY''"
       and sent = "[]" and ident = "\<lparr>ident_type = Type_handle, ident_value = js ''@mkbhd''\<rparr>"]
  by simp

subsection \<open>An empty or absent \<open>items\<close> array\<close>

lemma getVideoDetails_empty:
  assumes "snd (getVideoDetails http videoId apiKey sent) = sent @ [req]"
    and "http req = Ok_json data"
    and "items data = None \<or> items data = Some []"
  shows "fst (getVideoDetails http videoId apiKey sent) = Inl Video_not_found"
proof -
  from assms(1) have "req = \<lparr>endpoint = ''videos'',
                query = [(''key'', Str apiKey),
                         (''part'', Str (js ''snippet,statistics,contentDetails'')),
                         (''id'', Str videoId)]\<rparr>"
    by (simp add: getVideoDetails_sent)
  with assms(2,3) show ?thesis
    by (auto simp: getVideoDetails_def youtubeApiFetch_def Let_def)
qed

lemma getChannelInfo_empty:
  assumes "snd (getChannelInfo http ident apiKey sent) = sent @ [req]"
    and "http req = Ok_json data"
    and "items data = None \<or> items data = Some []"
  shows "fst (getChannelInfo http ident apiKey sent) = Inl Channel_not_found"
proof -
  from assms(1) have "req = \<lparr>endpoint = ''channels'',
                query = [(''key'', Str apiKey),
                         (''part'', Str (js ''snippet,statistics'')),
                         (case ident_type ident of
                            Type_id \<Rightarrow> ''id''
                          | Type_handle \<Rightarrow> ''forHandle''
                          | Type_username \<Rightarrow> ''forUsername'',
                          Str (ident_value ident))]\<rparr>"
    by (simp add: getChannelInfo_sent)
  with assms(2,3) show ?thesis
    by (cases "ident_type ident")
       (auto simp: getChannelInfo_def youtubeApiFetch_def Let_def)
qed

lemma searchVideos_Ok:
  assumes "snd (searchVideos http q apiKey m sent) = sent @ [req]"
    and "http req = Ok_json data"
  shows "fst (searchVideos http q apiKey m sent) =
    Inr (map (\<lambda>item.
                  \<lparr>sr_videoId = sid_videoId (si_id item),
                   sr_title = ss_title (si_snippet item),
                   sr_description = ss_description (si_snippet item),
                   sr_channelTitle = ss_channelTitle (si_snippet item),
                   sr_publishedAt = ss_publishedAt (si_snippet item),
                   sr_thumbnailUrl = nullish (high_url (ss_thumbnails (si_snippet item))) []\<rparr>)
                (nullish (items data) []))"
proof -
  from assms(1) have "req = \<lparr>endpoint = ''search'',
                query = [(''key'', Str apiKey),
                         (''part'', Str (js ''snippet'')),
                         (''q'', Str q),
                         (''type'', Str (js ''video'')),
                         (''maxResults'', String_of (nullish m 5))]\<rparr>"
    by (simp add: searchVideos_sent)
  with assms(2) show ?thesis
    by (simp add: searchVideos_def youtubeApiFetch_def Let_def)
qed

lemma getVideoComments_Ok:
  assumes "snd (getVideoComments http videoId apiKey m sent) = sent @ [req]"
    and "http req = Ok_json data"
  shows "fst (getVideoComments http videoId apiKey m sent) =
    Inr (map (\<lambda>item.
                  (let top = tlc_snippet (ts_topLevelComment (ti_snippet item))
                   in \<lparr>c_author = cs_authorDisplayName top,
                       c_text = cs_textDisplay top,
                       c_likeCount = cs_likeCount top,
                       c_publishedAt = cs_publishedAt top,
                       c_replyCount = ts_totalReplyCount (ti_snippet item)\<rparr>))
                (nullish (items data) []))"
proof -
  from assms(1) have "req = \<lparr>endpoint = ''commentThreads'',
                query = [(''key'', Str apiKey),
                         (''part'', Str (js ''snippet'')),
                         (''videoId'', Str videoId),
                         (''maxResults'', String_of (nullish m 20)),
                         (''order'', Str (js ''relevance'')),
                         (''textFormat'', Str (js ''plainText''))]\<rparr>"
    by (simp add: getVideoComments_sent)
  with assms(2) show ?thesis
    by (simp add: getVideoComments_def youtubeApiFetch_def Let_def)
qed

text \<open>
  Claim C2, as amended.  When the upstream answers the operation's request with a body
  whose \<open>items\<close> is absent or empty, \<open>getVideoDetails\<close> and \<open>getChannelInfo\<close> fail with
  their not-found error, and \<open>searchVideos\<close> and \<open>getVideoComments\<close> succeed with the empty
  list.  (The claim has all four fail; the counterexample is a search and a comments
  request answered with no items.)
\<close>

theorem empty_items_results:
  "(snd (getVideoDetails hv videoId apiKey sent) = sent @ [rv] \<and> hv rv = Ok_json dv
      \<and> (items dv = None \<or> items dv = Some [])
      \<longrightarrow> fst (getVideoDetails hv videoId apiKey sent) = Inl Video_not_found)
   \<and> (snd (getChannelInfo hc ident apiKey sent) = sent @ [rc] \<and> hc rc = Ok_json dc
      \<and> (items dc = None \<or> items dc = Some [])
      \<longrightarrow> fst (getChannelInfo hc ident apiKey sent) = Inl Channel_not_found)
   \<and> (snd (searchVideos hs q apiKey m sent) = sent @ [rs] \<and> hs rs = Ok_json ds
      \<and> (items ds = None \<or> items ds = Some [])
      \<longrightarrow> fst (searchVideos hs q apiKey m sent) = Inr [])
   \<and> (snd (getVideoComments ht videoId apiKey n sent) = sent @ [rt] \<and> ht rt = Ok_json dt
      \<and> (items dt = None \<or> items dt = Some [])
      \<longrightarrow> fst (getVideoComments ht videoId apiKey n sent) = Inr [])"
proof (intro conjI impI)
  assume "snd (getVideoDetails hv videoId apiKey sent) = sent @ [rv] \<and> hv rv = Ok_json dv
      \<and> (items dv = None \<or> items dv = Some [])"
  then show "fst (getVideoDetails hv videoId apiKey sent) = Inl Video_not_found"
    by (blast intro: getVideoDetails_empty)
next
  assume "snd (getChannelInfo hc ident apiKey sent) = sent @ [rc] \<and> hc rc = Ok_json dc
      \<and> (items dc = None \<or> items dc = Some [])"
  then show "fst (getChannelInfo hc ident apiKey sent) = Inl Channel_not_found"
    by (blast intro: getChannelInfo_empty)
next
  assume a: "snd (searchVideos hs q apiKey m sent) = sent @ [rs] \<and> hs rs = Ok_json ds
      \<and> (items ds = None \<or> items ds = Some [])"
  then have "nullish (items ds) [] = []" by (auto simp: nullish_def)
  with a show "fst (searchVideos hs q apiKey m sent) = Inr []"
    by (simp add: searchVideos_Ok [of hs q apiKey m sent rs ds])
next
  assume a: "snd (getVideoComments ht videoId apiKey n sent) = sent @ [rt] \<and> ht rt = Ok_json dt
      \<and> (items dt = None \<or> items dt = Some [])"
  then have "nullish (items dt) [] = []" by (auto simp: nullish_def)
  with a show "fst (getVideoComments ht videoId apiKey n sent) = Inr []"
    by (simp add: getVideoComments_Ok [of ht videoId apiKey n sent rt dt])
qed

theorem empty_items_results_witness:
  "fst (getVideoDetails (\<lambda>req. Ok_json \<lparr>items = Some []\<rparr>) (js ''dQw4w9WgXcQ'') (js ''KEY'') [])
     = Inl Video_not_found
   \<and> fst (getChannelInfo (\<lambda>req. Ok_json \<lparr>items = None\<rparr>)
        \<lparr>ident_type = Type_handle, ident_value = js ''@mkbhd''\<rparr> (js ''KEY'') [])
     = Inl Channel_not_found
   \<and> fst (searchVideos (\<lambda>req. Ok_json \<lparr>items = Some []\<rparr>) (js ''cats'') (js ''KEY'') (Some 5) [])
     = Inr []
   \<and> fst (getVideoComments (\<lambda>req. Ok_json \<lparr>items = None\<rparr>) (js ''dQw4w9WgXcQ'') (js ''KEY'')
        (Some 20) [])
     = Inr []"
  using empty_items_results
    [where hv = "\<lambda>req. Ok_json \<lparr>items = Some []\<rparr>" and dv = "\<lparr>items = Some []\<rparr>"
       and videoId = "js ''dQw4w9WgXcQ''" and apiKey = "js ''KEY''" and sent = "[]"
       and rv = "\<lparr>endpoint = ''videos'',
                query = [(''key'', Str (js ''KEY'')),
                         (''part'', Str (js ''snippet,statistics,contentDetails'')),
                         (''id'', Str (js ''dQw4w9WgXcQ''))]\<rparr>"
       and hc = "\<lambda>req. Ok_json \<lparr>items = None\<rparr>" and dc = "\<lparr>items = None\<rparr>"
       and ident = "\<lparr>ident_type = Type_handle, ident_value = js ''@mkbhd''\<rparr>"
       and rc = "\<lparr>endpoint = ''channels'',
                query = [(''key'', Str (js ''KEY'')),
                         (''part'', Str (js ''snippet,statistics'')),
                         (''forHandle'', Str (js ''@mkbhd''))]\<rparr>"
       and hs = "\<lambda>req. Ok_json \<lparr>items = Some []\<rparr>" and ds = "\<lparr>items = Some []\<rparr>"
       and q = "js ''cats''" and m = "Some 5" and n = "Some 20"
       and rs = "\<lparr>endpoint = ''search'',
                query = [(''key'', Str (js ''KEY'')),
                         (''part'', Str (js ''snippet'')),
                         (''q'', Str (js ''cats'')),
                         (''type'', Str (js ''video'')),
                         (''maxResults'', String_of 5)]\<rparr>"
       and ht = "\<lambda>req. Ok_json \<lparr>items = None\<rparr>" and dt = "\<lparr>items = None\<rparr>"
       and rt = "\<lparr>endpoint = ''commentThreads'',
                query = [(''key'', Str (js ''KEY'')),
                         (''part'', Str (js ''snippet'')),
                         (''videoId'', Str (js ''dQw4w9WgXcQ'')),
                         (''maxResults'', String_of 20),
                         (''order'', Str (js ''relevance'')),
                         (''textFormat'', Str (js ''plainText''))]\<rparr>"]
  by (simp add: getVideoDetails_sent getChannelInfo_sent searchVideos_sent getVideoComments_sent
      nullish_def)

theorem empty_items_not_found_counterexample:
  "fst (searchVideos (\<lambda>req. Ok_json \<lparr>items = Some []\<rparr>) (js ''cats'') (js ''KEY'') None [])
     = Inr []
   \<and> fst (getVideoComments (\<lambda>req. Ok_json \<lparr>items = None\<rparr>) (js ''dQw4w9WgXcQ'') (js ''KEY'')
        None [])
     = Inr []"
  by (simp add: searchVideos_def getVideoComments_def youtubeApiFetch_def Let_def nullish_def)

subsection \<open>Absent optional fields\<close>

lemma high_url_None_iff:
  "high_url t = None \<longleftrightarrow>
     t = None \<or> (\<exists>ts. t = Some ts \<and> (high ts = None \<or> (\<exists>h. high ts = Some h \<and> url h = None)))"
  by (auto simp: high_url_def split: option.splits)

lemma getVideoDetails_Ok:
  assumes "snd (getVideoDetails http videoId apiKey sent) = sent @ [req]"
    and "http req = Ok_json data"
    and "items data = Some (item # others)"
  shows "fst (getVideoDetails http videoId apiKey sent) =
     Inr \<lparr>vd_title = vs_title (vi_snippet item),
          vd_description = vs_description (vi_snippet item),
          vd_channelTitle = vs_channelTitle (vi_snippet item),
          vd_channelId = vs_channelId (vi_snippet item),
          vd_publishedAt = vs_publishedAt (vi_snippet item),
          vd_viewCount = nullish (vst_viewCount (vi_statistics item)) (js ''N/A''),
          vd_likeCount = nullish (vst_likeCount (vi_statistics item)) (js ''N/A''),
          vd_commentCount = nullish (vst_commentCount (vi_statistics item)) (js ''N/A''),
          vd_duration = vc_duration (vi_contentDetails item),
          vd_tags = nullish (vs_tags (vi_snippet item)) [],
          vd_thumbnailUrl = nullish (high_url (vs_thumbnails (vi_snippet item))) [],
          vd_categoryId = vs_categoryId (vi_snippet item)\<rparr>"
proof -
  from assms(1) have "req = \<lparr>endpoint = ''videos'',
                query = [(''key'', Str apiKey),
                         (''part'', Str (js ''snippet,statistics,contentDetails'')),
                         (''id'', Str videoId)]\<rparr>"
    by (simp add: getVideoDetails_sent)
  with assms(2,3) show ?thesis
    by (simp add: getVideoDetails_def youtubeApiFetch_def Let_def)
qed

lemma getChannelInfo_Ok:
  assumes "snd (getChannelInfo http ident apiKey sent) = sent @ [req]"
    and "http req = Ok_json data"
    and "items data = Some (item # others)"
  shows "fst (getChannelInfo http ident apiKey sent) =
     Inr \<lparr>ci_id = ch_id item,
          ci_title = chs_title (ch_snippet item),
          ci_description = chs_description (ch_snippet item),
          ci_customUrl = nullish (chs_customUrl (ch_snippet item)) [],
          ci_publishedAt = chs_publishedAt (ch_snippet item),
          ci_subscriberCount = nullish (cst_subscriberCount (ch_statistics item)) (js ''hidden''),
          ci_videoCount = nullish (cst_videoCount (ch_statistics item)) (js ''0''),
          ci_viewCount = nullish (cst_viewCount (ch_statistics item)) (js ''0''),
          ci_thumbnailUrl = nullish (high_url (chs_thumbnails (ch_snippet item))) [],
          ci_country = nullish (chs_country (ch_snippet item)) (js ''N/A'')\<rparr>"
proof -
  from assms(1) have "req = \<lparr>endpoint = ''channels'',
                query = [(''key'', Str apiKey),
                         (''part'', Str (js ''snippet,statistics'')),
                         (case ident_type ident of
                            Type_id \<Rightarrow> ''id''
                          | Type_handle \<Rightarrow> ''forHandle''
                          | Type_username \<Rightarrow> ''forUsername'',
                          Str (ident_value ident))]\<rparr>"
    by (simp add: getChannelInfo_sent)
  with assms(2,3) show ?thesis
    by (cases "ident_type ident")
       (simp_all add: getChannelInfo_def youtubeApiFetch_def Let_def)
qed

text \<open>
  Claim C5.  When the upstream answers with an item, each optional field that is absent
  in it gets its sentinel in the result, each on its own: for a video \<open>N/A\<close> for the three
  counts, no tags, the empty thumbnail URL; for a channel the empty custom URL and
  thumbnail URL, \<open>hidden\<close> for the subscriber count, \<open>0\<close> for the video and view counts,
  \<open>N/A\<close> for the country; for each search result the empty thumbnail URL.  The thumbnail
  URL is absent when \<open>thumbnails\<close>, its \<open>high\<close> or the \<open>url\<close> of that is.
\<close>

theorem absent_fields_get_sentinels:
  "(snd (getVideoDetails hv videoId apiKey sent) = sent @ [rv] \<and> hv rv = Ok_json dv
      \<and> items dv = Some (vitem # vothers)
      \<longrightarrow> (\<exists>d. fst (getVideoDetails hv videoId apiKey sent) = Inr d
            \<and> (vst_viewCount (vi_statistics vitem) = None \<longrightarrow> vd_viewCount d = js ''N/A'')
            \<and> (vst_likeCount (vi_statistics vitem) = None \<longrightarrow> vd_likeCount d = js ''N/A'')
            \<and> (vst_commentCount (vi_statistics vitem) = None \<longrightarrow> vd_commentCount d = js ''N/A'')
            \<and> (vs_tags (vi_snippet vitem) = None \<longrightarrow> vd_tags d = [])
            \<and> (high_url (vs_thumbnails (vi_snippet vitem)) = None \<longrightarrow> vd_thumbnailUrl d = [])))
   \<and> (snd (getChannelInfo hc ident apiKey sent) = sent @ [rc] \<and> hc rc = Ok_json dc
      \<and> items dc = Some (citem # cothers)
      \<longrightarrow> (\<exists>d. fst (getChannelInfo hc ident apiKey sent) = Inr d
            \<and> (chs_customUrl (ch_snippet citem) = None \<longrightarrow> ci_customUrl d = [])
            \<and> (high_url (chs_thumbnails (ch_snippet citem)) = None \<longrightarrow> ci_thumbnailUrl d = [])
            \<and> (cst_subscriberCount (ch_statistics citem) = None
                  \<longrightarrow> ci_subscriberCount d = js ''hidden'')
            \<and> (cst_videoCount (ch_statistics citem) = None \<longrightarrow> ci_videoCount d = js ''0'')
            \<and> (cst_viewCount (ch_statistics citem) = None \<longrightarrow> ci_viewCount d = js ''0'')
            \<and> (chs_country (ch_snippet citem) = None \<longrightarrow> ci_country d = js ''N/A'')))
   \<and> (snd (searchVideos hs q apiKey m sent) = sent @ [rs] \<and> hs rs = Ok_json ds
      \<and> items ds = Some sitems
      \<longrightarrow> (\<exists>results. fst (searchVideos hs q apiKey m sent) = Inr results
            \<and> length results = length sitems
            \<and> (\<forall>i < length sitems.
                  high_url (ss_thumbnails (si_snippet (sitems ! i))) = None
                  \<longrightarrow> sr_thumbnailUrl (results ! i) = [])))"
proof (intro conjI impI)
  assume a: "snd (getVideoDetails hv videoId apiKey sent) = sent @ [rv] \<and> hv rv = Ok_json dv
      \<and> items dv = Some (vitem # vothers)"
  show "\<exists>d. fst (getVideoDetails hv videoId apiKey sent) = Inr d
            \<and> (vst_viewCount (vi_statistics vitem) = None \<longrightarrow> vd_viewCount d = js ''N/A'')
            \<and> (vst_likeCount (vi_statistics vitem) = None \<longrightarrow> vd_likeCount d = js ''N/A'')
            \<and> (vst_commentCount (vi_statistics vitem) = None \<longrightarrow> vd_commentCount d = js ''N/A'')
            \<and> (vs_tags (vi_snippet vitem) = None \<longrightarrow> vd_tags d = [])
            \<and> (high_url (vs_thumbnails (vi_snippet vitem)) = None \<longrightarrow> vd_thumbnailUrl d = [])"
    using a
    by (simp add: getVideoDetails_Ok [of hv videoId apiKey sent rv dv vitem vothers] nullish_def)
next
  assume a: "snd (getChannelInfo hc ident apiKey sent) = sent @ [rc] \<and> hc rc = Ok_json dc
      \<and> items dc = Some (citem # cothers)"
  show "\<exists>d. fst (getChannelInfo hc ident apiKey sent) = Inr d
            \<and> (chs_customUrl (ch_snippet citem) = None \<longrightarrow> ci_customUrl d = [])
            \<and> (high_url (chs_thumbnails (ch_snippet citem)) = None \<longrightarrow> ci_thumbnailUrl d = [])
            \<and> (cst_subscriberCount (ch_statistics citem) = None
                  \<longrightarrow> ci_subscriberCount d = js ''hidden'')
            \<and> (cst_videoCount (ch_statistics citem) = None \<longrightarrow> ci_videoCount d = js ''0'')
            \<and> (cst_viewCount (ch_statistics citem) = None \<longrightarrow> ci_viewCount d = js ''0'')
            \<and> (chs_country (ch_snippet citem) = None \<longrightarrow> ci_country d = js ''N/A'')"
    using a
    by (simp add: getChannelInfo_Ok [of hc ident apiKey sent rc dc citem cothers] nullish_def)
next
  assume a: "snd (searchVideos hs q apiKey m sent) = sent @ [rs] \<and> hs rs = Ok_json ds
      \<and> items ds = Some sitems"
  show "\<exists>results. fst (searchVideos hs q apiKey m sent) = Inr results
            \<and> length results = length sitems
            \<and> (\<forall>i < length sitems.
                  high_url (ss_thumbnails (si_snippet (sitems ! i))) = None
                  \<longrightarrow> sr_thumbnailUrl (results ! i) = [])"
    using a by (simp add: searchVideos_Ok [of hs q apiKey m sent rs ds] nullish_def)
qed

theorem absent_fields_get_sentinels_witness:
  "(\<exists>d. fst (getVideoDetails
              (\<lambda>req. Ok_json \<lparr>items = Some [\<lparr>vi_snippet =
                  \<lparr>vs_title = js ''Title'', vs_description = js ''Text'', vs_channelTitle = js ''Channel'',
                   vs_channelId = js ''UCuAXFkgsw1L7xaCfnd5JJOw'', vs_publishedAt = js ''2009-10-25'',
                   vs_tags = None, vs_thumbnails = Some \<lparr>high = None\<rparr>, vs_categoryId = js ''10''\<rparr>,
                 vi_statistics =
                  \<lparr>vst_viewCount = Some (js ''42''), vst_likeCount = None, vst_commentCount = None\<rparr>,
                 vi_contentDetails = \<lparr>vc_duration = js ''PT3M33S''\<rparr>\<rparr>]\<rparr>)
              (js ''dQw4w9WgXcQ'') (js ''KEY'') []) = Inr d
        \<and> vd_viewCount d = js ''42'' \<and> vd_likeCount d = js ''N/A'' \<and> vd_commentCount d = js ''N/A''
        \<and> vd_tags d = [] \<and> vd_thumbnailUrl d = [])
   \<and> (\<exists>d. fst (getChannelInfo
              (\<lambda>req. Ok_json \<lparr>items = Some [\<lparr>ch_id = js ''UCBJycsmduvYEL83R_U4JriQ'',
                 ch_snippet =
                  \<lparr>chs_title = js ''MKBHD'', chs_description = js ''Text'', chs_customUrl = None,
                   chs_publishedAt = js ''2008-03-21'', chs_thumbnails = None, chs_country = None\<rparr>,
                 ch_statistics =
                  \<lparr>cst_subscriberCount = None, cst_videoCount = None, cst_viewCount = None\<rparr>\<rparr>]\<rparr>)
              \<lparr>ident_type = Type_handle, ident_value = js ''@mkbhd''\<rparr> (js ''KEY'') []) = Inr d
        \<and> ci_customUrl d = [] \<and> ci_thumbnailUrl d = [] \<and> ci_subscriberCount d = js ''hidden''
        \<and> ci_videoCount d = js ''0'' \<and> ci_viewCount d = js ''0'' \<and> ci_country d = js ''N/A'')
   \<and> (\<exists>results. fst (searchVideos
              (\<lambda>req. Ok_json \<lparr>items = Some [\<lparr>si_id = \<lparr>sid_videoId = js ''dQw4w9WgXcQ''\<rparr>,
                 si_snippet =
                  \<lparr>ss_title = js ''Title'', ss_description = js ''Text'', ss_channelTitle = js ''Channel'',
                   ss_publishedAt = js ''2009-10-25'',
                   ss_thumbnails = Some \<lparr>high = Some \<lparr>url = None\<rparr>\<rparr>\<rparr>\<rparr>]\<rparr>)
              (js ''cats'') (js ''KEY'') (Some 5) []) = Inr results
        \<and> length results = 1 \<and> sr_thumbnailUrl (results ! 0) = [])"
  using absent_fields_get_sentinels
    [where hv = "\<lambda>req. Ok_json \<lparr>items = Some [\<lparr>vi_snippet =
                  \<lparr>vs_title = js ''Title'', vs_description = js ''Text'', vs_channelTitle = js ''Channel'',
                   vs_channelId = js ''UCuAXFkgsw1L7xaCfnd5JJOw'', vs_publishedAt = js ''2009-10-25'',
                   vs_tags = None, vs_thumbnails = Some \<lparr>high = None\<rparr>, vs_categoryId = js ''10''\<rparr>,
                 vi_statistics =
                  \<lparr>vst_viewCount = Some (js ''42''), vst_likeCount = None, vst_commentCount = None\<rparr>,
                 vi_contentDetails = \<lparr>vc_duration = js ''PT3M33S''\<rparr>\<rparr>]\<rparr>"
       and videoId = "js ''dQw4w9WgXcQ''" and apiKey = "js ''KEY''" and sent = "[]"
       and hc = "\<lambda>req. Ok_json \<lparr>items = Some [\<lparr>ch_id = js ''UCBJycsmduvYEL83R_U4JriQ'',
                 ch_snippet =
                  \<lparr>chs_title = js ''MKBHD'', chs_description = js ''Text'', chs_customUrl = None,
                   chs_publishedAt = js ''2008-03-21'', chs_thumbnails = None, chs_country = None\<rparr>,
                 ch_statistics =
                  \<lparr>cst_subscriberCount = None, cst_videoCount = None, cst_viewCount = None\<rparr>\<rparr>]\<rparr>"
       and ident = "\<lparr>ident_type = Type_handle, ident_value = js ''@mkbhd''\<rparr>"
       and hs = "\<lambda>req. Ok_json \<lparr>items = Some [\<lparr>si_id = \<lparr>sid_videoId = js ''dQw4w9WgXcQ''\<rparr>,
                 si_snippet =
                  \<lparr>ss_title = js ''Title'', ss_description = js ''Text'', ss_channelTitle = js ''Channel'',
                   ss_publishedAt = js ''2009-10-25'',
                   ss_thumbnails = Some \<lparr>high = Some \<lparr>url = None\<rparr>\<rparr>\<rparr>\<rparr>]\<rparr>"
       and q = "js ''cats''" and m = "Some 5"]
  by (simp add: getVideoDetails_sent getChannelInfo_sent searchVideos_sent
      getVideoDetails_def getChannelInfo_def searchVideos_def youtubeApiFetch_def Let_def
      nullish_def high_url_def)

section \<open>Properties of the tools\<close>

subsection \<open>The bounds on \<open>maxResults\<close>\<close>

lemma server_tool_sent:
  "snd (server_tool schema handler args sent)
     = (if schema args then snd (handler args sent) else sent)"
  by (simp add: server_tool_def split: prod.splits)

lemma search_videos_handler_sent:
  "snd (search_videos_handler http apiKey (q, m) sent)
     = sent @ [\<lparr>endpoint = ''search'',
                query = [(''key'', Str apiKey),
                         (''part'', Str (js ''snippet'')),
                         (''q'', Str q),
                         (''type'', Str (js ''video'')),
                         (''maxResults'', String_of (nullish m 5))]\<rparr>]"
proof -
  have "snd (search_videos_handler http apiKey (q, m) sent)
          = snd (searchVideos http q apiKey (Some (nullish m 5)) sent)"
    by (simp add: search_videos_handler_def split: prod.splits sum.splits)
  then show ?thesis by (simp add: searchVideos_sent nullish_def)
qed

lemma get_video_comments_handler_sent:
  "snd (get_video_comments_handler http apiKey (u, m) sent)
     = (case extractVideoId u of
          None \<Rightarrow> sent
        | Some videoId \<Rightarrow>
            sent @ [\<lparr>endpoint = ''commentThreads'',
                      query = [(''key'', Str apiKey),
                               (''part'', Str (js ''snippet'')),
                               (''videoId'', Str videoId),
                               (''maxResults'', String_of (nullish m 20)),
                               (''order'', Str (js ''relevance'')),
                               (''textFormat'', Str (js ''plainText''))]\<rparr>])"
proof (cases "extractVideoId u")
  case None
  then show ?thesis by (simp add: get_video_comments_handler_def falsy_def)
next
  case (Some videoId)
  then have "\<not> falsy (extractVideoId u)" using extractVideoId_not_falsy [of u] by simp
  with Some have "snd (get_video_comments_handler http apiKey (u, m) sent)
          = snd (getVideoComments http videoId apiKey (Some (nullish m 20)) sent)"
    by (simp add: get_video_comments_handler_def split: prod.splits sum.splits)
  with Some show ?thesis by (simp add: getVideoComments_sent nullish_def)
qed

lemma search_videos_rejects:
  "n < 1 \<or> 25 < n \<Longrightarrow> search_videos http apiKey (q, Some n) sent = (Invalid_arguments, sent)"
  by (auto simp: search_videos_def server_tool_def optional_number_between_def)

lemma get_video_comments_rejects:
  "n < 1 \<or> 100 < n \<Longrightarrow> get_video_comments http apiKey (u, Some n) sent = (Invalid_arguments, sent)"
  by (auto simp: get_video_comments_def server_tool_def optional_number_between_def)

text \<open>
  Claim C4.  A call of \<open>search_videos\<close> whose \<open>maxResults\<close> is outside 1 to 25 (30, say) is
  answered as invalid with nothing sent upstream, and likewise \<open>get_video_comments\<close>
  outside 1 to 100; and whatever the arguments, each tool either sends nothing or sends
  the one request whose \<open>maxResults\<close> parameter is \<open>String(k)\<close> for a \<open>k\<close> within the bounds.
\<close>

theorem maxResults_bounded:
  "((n < 1 \<or> 25 < n) \<longrightarrow> search_videos hs apiKey (q, Some n) sent = (Invalid_arguments, sent))
   \<and> ((n < 1 \<or> 100 < n)
        \<longrightarrow> get_video_comments hc apiKey (u, Some n) sent = (Invalid_arguments, sent))
   \<and> (snd (search_videos hs apiKey (q, m) sent) = sent
       \<or> (\<exists>k. 1 \<le> k \<and> k \<le> 25
            \<and> snd (search_videos hs apiKey (q, m) sent)
                = sent @ [\<lparr>endpoint = ''search'',
                           query = [(''key'', Str apiKey),
                                    (''part'', Str (js ''snippet'')),
                                    (''q'', Str q),
                                    (''type'', Str (js ''video'')),
                                    (''maxResults'', String_of k)]\<rparr>]))
   \<and> (snd (get_video_comments hc apiKey (u, m) sent) = sent
       \<or> (\<exists>k videoId. 1 \<le> k \<and> k \<le> 100
            \<and> snd (get_video_comments hc apiKey (u, m) sent)
                = sent @ [\<lparr>endpoint = ''commentThreads'',
                           query = [(''key'', Str apiKey),
                                    (''part'', Str (js ''snippet'')),
                                    (''videoId'', Str videoId),
                                    (''maxResults'', String_of k),
                                    (''order'', Str (js ''relevance'')),
                                    (''textFormat'', Str (js ''plainText''))]\<rparr>]))"
proof (intro conjI impI)
  assume "n < 1 \<or> 25 < n"
  then show "search_videos hs apiKey (q, Some n) sent = (Invalid_arguments, sent)"
    by (rule search_videos_rejects)
next
  assume "n < 1 \<or> 100 < n"
  then show "get_video_comments hc apiKey (u, Some n) sent = (Invalid_arguments, sent)"
    by (rule get_video_comments_rejects)
next
  show "snd (search_videos hs apiKey (q, m) sent) = sent
       \<or> (\<exists>k. 1 \<le> k \<and> k \<le> 25
            \<and> snd (search_videos hs apiKey (q, m) sent)
                = sent @ [\<lparr>endpoint = ''search'',
                           query = [(''key'', Str apiKey),
                                    (''part'', Str (js ''snippet'')),
                                    (''q'', Str q),
                                    (''type'', Str (js ''video'')),
                                    (''maxResults'', String_of k)]\<rparr>])"
  proof (cases "optional_number_between 1 25 m")
    case False
    then show ?thesis by (simp add: search_videos_def server_tool_sent)
  next
    case True
    then have "1 \<le> nullish m 5 \<and> nullish m 5 \<le> 25"
      by (cases m) (simp_all add: optional_number_between_def nullish_def)
    moreover from True have "snd (search_videos hs apiKey (q, m) sent)
       = sent @ [\<lparr>endpoint = ''search'',
                  query = [(''key'', Str apiKey),
                           (''part'', Str (js ''snippet'')),
                           (''q'', Str q),
                           (''type'', Str (js ''video'')),
                           (''maxResults'', String_of (nullish m 5))]\<rparr>]"
      by (simp add: search_videos_def server_tool_sent search_videos_handler_sent)
    ultimately show ?thesis by blast
  qed
next
  show "snd (get_video_comments hc apiKey (u, m) sent) = sent
       \<or> (\<exists>k videoId. 1 \<le> k \<and> k \<le> 100
            \<and> snd (get_video_comments hc apiKey (u, m) sent)
                = sent @ [\<lparr>endpoint = ''commentThreads'',
                           query = [(''key'', Str apiKey),
                                    (''part'', Str (js ''snippet'')),
                                    (''videoId'', Str videoId),
                                    (''maxResults'', String_of k),
                                    (''order'', Str (js ''relevance'')),
                                    (''textFormat'', Str (js ''plainText''))]\<rparr>])"
  proof (cases "optional_number_between 1 100 m")
    case False
    then show ?thesis by (simp add: get_video_comments_def server_tool_sent)
  next
    case valid: True
    show ?thesis
    proof (cases "extractVideoId u")
      case None
      with valid show ?thesis
        by (simp add: get_video_comments_def server_tool_sent get_video_comments_handler_sent)
    next
      case (Some videoId)
      from valid have "1 \<le> nullish m 20 \<and> nullish m 20 \<le> 100"
        by (cases m) (simp_all add: optional_number_between_def nullish_def)
      moreover from valid Some have "snd (get_video_comments hc apiKey (u, m) sent)
                = sent @ [\<lparr>endpoint = ''commentThreads'',
                           query = [(''key'', Str apiKey),
                                    (''part'', Str (js ''snippet'')),
                                    (''videoId'', Str videoId),
                                    (''maxResults'', String_of (nullish m 20)),
                                    (''order'', Str (js ''relevance'')),
                                    (''textFormat'', Str (js ''plainText''))]\<rparr>]"
        by (simp add: get_video_comments_def server_tool_sent get_video_comments_handler_sent)
      ultimately show ?thesis by blast
    qed
  qed
qed

theorem maxResults_bounded_witness:
  "search_videos (\<lambda>req. Ok_json \<lparr>items = Some []\<rparr>) (js ''KEY'') (js ''cats'', Some 30) []
     = (Invalid_arguments, [])
   \<and> get_video_comments (\<lambda>req. Ok_json \<lparr>items = Some []\<rparr>) (js ''KEY'')
        (js ''dQw4w9WgXcQ'', Some 101) []
     = (Invalid_arguments, [])
   \<and> search_videos (\<lambda>req. Ok_json \<lparr>items = Some []\<rparr>) (js ''KEY'') (js ''cats'', Some 0) []
     = (Invalid_arguments, [])
   \<and> search_videos (\<lambda>req. Ok_json \<lparr>items = Some []\<rparr>) (js ''KEY'') (js ''cats'', Some 25) []
     = (Handled \<lparr>content = Json_payload [], isError = False\<rparr>,
        [\<lparr>endpoint = ''search'',
          query = [(''key'', Str (js ''KEY'')),
                   (''part'', Str (js ''snippet'')),
                   (''q'', Str (js ''cats'')),
                   (''type'', Str (js ''video'')),
                   (''maxResults'', String_of 25)]\<rparr>])"
proof -
  have accepted:
    "search_videos (\<lambda>req. Ok_json \<lparr>items = Some []\<rparr>) (js ''KEY'') (js ''cats'', Some 25) []
     = (Handled \<lparr>content = Json_payload [], isError = False\<rparr>,
        [\<lparr>endpoint = ''search'',
          query = [(''key'', Str (js ''KEY'')),
                   (''part'', Str (js ''snippet'')),
                   (''q'', Str (js ''cats'')),
                   (''type'', Str (js ''video'')),
                   (''maxResults'', String_of 25)]\<rparr>])"
    by (simp add: search_videos_def server_tool_def optional_number_between_def
        search_videos_handler_def searchVideos_def youtubeApiFetch_def Let_def nullish_def)
  show ?thesis
    using accepted
      maxResults_bounded
        [where n = 30 and hs = "\<lambda>req. Ok_json \<lparr>items = Some []\<rparr>" and apiKey = "js ''KEY''"
           and q = "js ''cats''" and sent = "[]"]
      maxResults_bounded
        [where n = 101 and hc = "\<lambda>req. Ok_json \<lparr>items = Some []\<rparr>" and apiKey = "js ''KEY''"
           and u = "js ''dQw4w9WgXcQ''" and sent = "[]"]
      maxResults_bounded
        [where n = 0 and hs = "\<lambda>req. Ok_json \<lparr>items = Some []\<rparr>" and apiKey = "js ''KEY''"
           and q = "js ''cats''" and sent = "[]"]
    by simp
qed

subsection \<open>The transcript\<close>

text \<open>\<open>join\<close> as the runtime computes it is the separated concatenation of the spec.\<close>

lemma fold_join_step:
  "0 < n \<Longrightarrow> fold (\<lambda>(k, x) R. (if 0 < k then R @ sep else R) @ x) (enumerate n xs) R0
     = R0 @ concat (map (\<lambda>x. sep @ x) xs)"
  by (induction xs arbitrary: n R0) auto

lemma separated_Cons: "separated sep (x # xs) = x @ concat (map (\<lambda>y. sep @ y) xs)"
  by (induction xs arbitrary: x) auto

lemma join_separated: "join sep xs = separated sep xs"
proof (cases xs)
  case Nil
  then show ?thesis by (simp add: join_def)
next
  case (Cons x ys)
  then show ?thesis
    by (simp add: join_def fold_join_step separated_Cons)
qed

text \<open>
  Claim C6.  When the URL yields a video ID and the captions collaborator, asked with the
  caller's language or with \<open>en\<close> when the caller gave none, returns fragments, the tool's
  answer is not an error and its text is the fragments' texts with one space between each
  two, or \<open>No transcript content found.\<close> when that concatenation is empty.
\<close>

theorem transcript_text:
  assumes "extractVideoId u = Some videoId"
    and "fetchTranscript videoId (case language of None \<Rightarrow> js ''en'' | Some l \<Rightarrow> l) = Inr fragments"
  shows "get_transcript fetchTranscript u language =
     \<lparr>content =
        Text_payload
          (if separated (js '' '') (map tr_text fragments) = []
           then js ''No transcript content found.''
           else separated (js '' '') (map tr_text fragments)),
      isError = False\<rparr>"
proof -
  from assms(1) have "\<not> falsy (extractVideoId u)" using extractVideoId_not_falsy [of u] by simp
  with assms show ?thesis
    by (simp add: get_transcript_def nullish_def Let_def join_separated)
qed

theorem transcript_text_witness:
  "get_transcript
     (\<lambda>videoId lang.
        if videoId = js ''dQw4w9WgXcQ'' \<and> lang = js ''en''
        then Inr [\<lparr>tr_text = js ''never gonna'', tr_duration = 2, tr_offset = 0\<rparr>,
                  \<lparr>tr_text = js ''give you up'', tr_duration = 2, tr_offset = 2\<rparr>]
        else Inr [])
     (js ''https://youtu.be/dQw4w9WgXcQ'') None
     = \<lparr>content = Text_payload (js ''never gonna give you up''), isError = False\<rparr>
   \<and> get_transcript
     (\<lambda>videoId lang.
        if videoId = js ''dQw4w9WgXcQ'' \<and> lang = js ''en''
        then Inr [\<lparr>tr_text = js ''never gonna'', tr_duration = 2, tr_offset = 0\<rparr>,
                  \<lparr>tr_text = js ''give you up'', tr_duration = 2, tr_offset = 2\<rparr>]
        else Inr [])
     (js ''https://youtu.be/dQw4w9WgXcQ'') (Some (js ''es''))
     = \<lparr>content = Text_payload (js ''No transcript content found.''), isError = False\<rparr>"
proof -
  have h: "extractVideoId (js ''https://youtu.be/dQw4w9WgXcQ'') = Some (js ''dQw4w9WgXcQ'')"
    by (simp add: eval_defs)
  show ?thesis
    using transcript_text [OF h, where language = None
        and fetchTranscript = "\<lambda>videoId lang.
        if videoId = js ''dQw4w9WgXcQ'' \<and> lang = js ''en''
        then Inr [\<lparr>tr_text = js ''never gonna'', tr_duration = 2, tr_offset = 0\<rparr>,
                  \<lparr>tr_text = js ''give you up'', tr_duration = 2, tr_offset = 2\<rparr>]
        else Inr []"]
      transcript_text [OF h, where language = "Some (js ''es'')"
        and fetchTranscript = "\<lambda>videoId lang.
        if videoId = js ''dQw4w9WgXcQ'' \<and> lang = js ''en''
        then Inr [\<lparr>tr_text = js ''never gonna'', tr_duration = 2, tr_offset = 0\<rparr>,
                  \<lparr>tr_text = js ''give you up'', tr_duration = 2, tr_offset = 2\<rparr>]
        else Inr []"]
    by (simp add: js_def)
qed

end
